theory Spec2Isabelle
  imports Main
begin

section \<open>Python values\<close>

text \<open>
  The profile documents handled by \<^verbatim>\<open>profile.py\<close> are what \<^verbatim>\<open>json.load\<close> returns:
  \<^verbatim>\<open>None\<close>, booleans, integers, strings, lists and dictionaries with string keys. The
  remote fetch additionally hands back a \<^verbatim>\<open>bytes\<close> object. A dictionary is an
  association list in insertion order, as Python iterates it. JSON numbers with a
  fraction (Python floats) are outside this model.

  The embedding is in value semantics: a function that mutates a dictionary in place
  returns the dictionary's new contents, and the caller stores them where the source
  holds the mutated object.
  Where the source leaves one object reachable from two places (a value
  copied by \<^verbatim>\<open>dct[k] = v\<close>), the model holds two copies.
\<close>

datatype pyval =
    PNone
  | PBool bool
  | PInt int
  | PStr string
  | PBytes string
  | PList "pyval list"
  | PDict "(string \<times> pyval) list"

datatype error =
    TypeError
  | AttributeError
  | KeyError
  | RuntimeError
  | RecursionError
  | ValueError
  | PatternError
  | OSError

text \<open>An exception is the left injection; \<open>bindE\<close> sequences two steps that may raise.\<close>

definition bindE :: "error + 'a \<Rightarrow> ('a \<Rightarrow> error + 'b) \<Rightarrow> error + 'b" where
  "bindE m f = (case m of Inl e \<Rightarrow> Inl e | Inr x \<Rightarrow> f x)"

text \<open>\<^verbatim>\<open>type(x).__name__\<close>\<close>

fun py_type_name :: "pyval \<Rightarrow> string" where
  "py_type_name PNone = ''NoneType''"
| "py_type_name (PBool _) = ''bool''"
| "py_type_name (PInt _) = ''int''"
| "py_type_name (PStr _) = ''str''"
| "py_type_name (PBytes _) = ''bytes''"
| "py_type_name (PList _) = ''list''"
| "py_type_name (PDict _) = ''dict''"

text \<open>Truth value of an object in \<^verbatim>\<open>if x:\<close>\<close>

fun py_truthy :: "pyval \<Rightarrow> bool" where
  "py_truthy PNone = False"
| "py_truthy (PBool b) = b"
| "py_truthy (PInt i) = (i \<noteq> 0)"
| "py_truthy (PStr s) = (s \<noteq> [])"
| "py_truthy (PBytes s) = (s \<noteq> [])"
| "py_truthy (PList xs) = (xs \<noteq> [])"
| "py_truthy (PDict kvs) = (kvs \<noteq> [])"

text \<open>
  \<^verbatim>\<open>a == b\<close>: a boolean equals the integer it stands for, lists are compared
  element by element, dictionaries key by key whatever their order.
\<close>

fun py_eq :: "pyval \<Rightarrow> pyval \<Rightarrow> bool"
  and py_eq_list :: "pyval list \<Rightarrow> pyval list \<Rightarrow> bool"
  and py_eq_items :: "(string \<times> pyval) list \<Rightarrow> (string \<times> pyval) list \<Rightarrow> bool" where
  "py_eq PNone b = (b = PNone)"
| "py_eq (PBool x) b =
     (case b of PBool y \<Rightarrow> x = y | PInt j \<Rightarrow> j = (if x then 1 else 0) | _ \<Rightarrow> False)"
| "py_eq (PInt i) b =
     (case b of PBool y \<Rightarrow> i = (if y then 1 else 0) | PInt j \<Rightarrow> i = j | _ \<Rightarrow> False)"
| "py_eq (PStr s) b = (b = PStr s)"
| "py_eq (PBytes s) b = (b = PBytes s)"
| "py_eq (PList xs) b = (case b of PList ys \<Rightarrow> py_eq_list xs ys | _ \<Rightarrow> False)"
| "py_eq (PDict kvs) b =
     (case b of PDict kws \<Rightarrow> length kvs = length kws \<and> py_eq_items kvs kws | _ \<Rightarrow> False)"
| "py_eq_list [] ys = (ys = [])"
| "py_eq_list (x # xs) ys =
     (case ys of [] \<Rightarrow> False | y # ys' \<Rightarrow> py_eq x y \<and> py_eq_list xs ys')"
| "py_eq_items [] kws = True"
| "py_eq_items (kv # kvs) kws =
     (case map_of kws (fst kv) of
        None \<Rightarrow> False
      | Some w \<Rightarrow> py_eq (snd kv) w \<and> py_eq_items kvs kws)"

text \<open>\<^verbatim>\<open>x in xs\<close> for a list \<open>xs\<close>\<close>

definition py_in_list :: "pyval \<Rightarrow> pyval list \<Rightarrow> bool" where
  "py_in_list x xs = list_ex (py_eq x) xs"

text \<open>Lists and dictionaries cannot be hashed: using one as a key raises \<^verbatim>\<open>TypeError\<close>.\<close>

fun hashable :: "pyval \<Rightarrow> bool" where
  "hashable (PList _) = False"
| "hashable (PDict _) = False"
| "hashable _ = True"

text \<open>String order: by code point, a proper prefix first.\<close>

fun str_lt :: "string \<Rightarrow> string \<Rightarrow> bool" where
  "str_lt [] [] = False"
| "str_lt [] (y # ys) = True"
| "str_lt (x # xs) [] = False"
| "str_lt (x # xs) (y # ys) =
     ((of_char x :: nat) < of_char y \<or> (x = y \<and> str_lt xs ys))"

text \<open>\<^verbatim>\<open>a < b\<close>, which raises \<^verbatim>\<open>TypeError\<close> between objects that have no order.\<close>

fun py_lt :: "pyval \<Rightarrow> pyval \<Rightarrow> error + bool"
  and py_lt_list :: "pyval list \<Rightarrow> pyval list \<Rightarrow> error + bool" where
  "py_lt (PBool x) b =
     (case b of PBool y \<Rightarrow> Inr (\<not> x \<and> y) | PInt j \<Rightarrow> Inr ((if x then 1 else 0) < j)
      | _ \<Rightarrow> Inl TypeError)"
| "py_lt (PInt i) b =
     (case b of PBool y \<Rightarrow> Inr (i < (if y then 1 else 0)) | PInt j \<Rightarrow> Inr (i < j)
      | _ \<Rightarrow> Inl TypeError)"
| "py_lt (PStr s) b = (case b of PStr t \<Rightarrow> Inr (str_lt s t) | _ \<Rightarrow> Inl TypeError)"
| "py_lt (PBytes s) b = (case b of PBytes t \<Rightarrow> Inr (str_lt s t) | _ \<Rightarrow> Inl TypeError)"
| "py_lt (PList xs) b = (case b of PList ys \<Rightarrow> py_lt_list xs ys | _ \<Rightarrow> Inl TypeError)"
| "py_lt PNone b = Inl TypeError"
| "py_lt (PDict kvs) b = Inl TypeError"
| "py_lt_list [] ys = Inr (ys \<noteq> [])"
| "py_lt_list (x # xs) ys =
     (case ys of [] \<Rightarrow> Inr False
      | y # ys' \<Rightarrow> if py_eq x y then py_lt_list xs ys' else py_lt x y)"

text \<open>\<^verbatim>\<open>max(a, b)\<close> and \<^verbatim>\<open>min(a, b)\<close>: the first argument unless the second is strictly better.\<close>

definition py_max :: "pyval \<Rightarrow> pyval \<Rightarrow> error + pyval" where
  "py_max a b = bindE (py_lt a b) (\<lambda>lt. Inr (if lt then b else a))"

definition py_min :: "pyval \<Rightarrow> pyval \<Rightarrow> error + pyval" where
  "py_min a b = bindE (py_lt b a) (\<lambda>lt. Inr (if lt then b else a))"

subsection \<open>Dictionary and container operations\<close>

text \<open>\<^verbatim>\<open>d.get(k, default)\<close>: only a dictionary has the method.\<close>

fun py_get :: "pyval \<Rightarrow> string \<Rightarrow> pyval \<Rightarrow> error + pyval" where
  "py_get (PDict kvs) k dflt = Inr (case map_of kvs k of None \<Rightarrow> dflt | Some v \<Rightarrow> v)"
| "py_get _ k dflt = Inl AttributeError"

text \<open>\<^verbatim>\<open>d.items()\<close>\<close>

fun py_items :: "pyval \<Rightarrow> error + (string \<times> pyval) list" where
  "py_items (PDict kvs) = Inr kvs"
| "py_items _ = Inl AttributeError"

fun is_prefix :: "string \<Rightarrow> string \<Rightarrow> bool" where
  "is_prefix [] t = True"
| "is_prefix (c # s) [] = False"
| "is_prefix (c # s) (d # t) = (c = d \<and> is_prefix s t)"

fun is_substring :: "string \<Rightarrow> string \<Rightarrow> bool" where
  "is_substring s [] = (s = [])"
| "is_substring s (d # t) = (is_prefix s (d # t) \<or> is_substring s t)"

text \<open>
  \<^verbatim>\<open>k in d\<close> for a string \<open>k\<close>: key membership in a dictionary, element membership
  in a list, substring test in a string, \<^verbatim>\<open>TypeError\<close> otherwise.
\<close>

fun py_contains :: "string \<Rightarrow> pyval \<Rightarrow> error + bool" where
  "py_contains k (PDict kvs) = Inr (k \<in> set (map fst kvs))"
| "py_contains k (PList xs) = Inr (py_in_list (PStr k) xs)"
| "py_contains k (PStr s) = Inr (is_substring k s)"
| "py_contains k _ = Inl TypeError"

text \<open>\<^verbatim>\<open>d[k]\<close> for a string \<open>k\<close>\<close>

fun py_getitem :: "pyval \<Rightarrow> string \<Rightarrow> error + pyval" where
  "py_getitem (PDict kvs) k = (case map_of kvs k of None \<Rightarrow> Inl KeyError | Some v \<Rightarrow> Inr v)"
| "py_getitem _ k = Inl TypeError"

text \<open>
  \<^verbatim>\<open>d[k] = v\<close>: an existing key keeps its place in the iteration order, a new key goes
  to the end.
\<close>

fun dict_set :: "(string \<times> pyval) list \<Rightarrow> string \<Rightarrow> pyval \<Rightarrow> (string \<times> pyval) list" where
  "dict_set [] k v = [(k, v)]"
| "dict_set (kv # kvs) k v = (if fst kv = k then (k, v) # kvs else kv # dict_set kvs k v)"

fun py_setitem :: "pyval \<Rightarrow> string \<Rightarrow> pyval \<Rightarrow> error + pyval" where
  "py_setitem (PDict kvs) k v = Inr (PDict (dict_set kvs k v))"
| "py_setitem _ k v = Inl TypeError"


section \<open>The world outside the module\<close>

text \<open>
  \<^verbatim>\<open>profile.py\<close> imports \<^verbatim>\<open>splitVersionString\<close> and \<^verbatim>\<open>versionpattern\<close> from the
  helper module and calls the standard library for regular expressions, JSON, the file
  system and HTTP. None of these is defined in \<^verbatim>\<open>profile.py\<close>; the functions below take
  them as a parameter, so every theorem holds whatever they compute.
\<close>

type_synonym version = "int \<times> int \<times> int"

record env =
  versionpattern :: string
    \<comment> \<open>the regular expression of a version token\<close>
  splitVersionString :: "pyval \<Rightarrow> error + version"
    \<comment> \<open>a version string as a triple of integers\<close>
  py_str :: "pyval \<Rightarrow> string"
    \<comment> \<open>\<^verbatim>\<open>str(x)\<close>, also what \<^verbatim>\<open>'{}'.format(x)\<close> inserts\<close>
  json_dumps :: "pyval \<Rightarrow> error + string"
    \<comment> \<open>\<^verbatim>\<open>json.dumps(x, sort_keys=True)\<close>\<close>
  re_compiles :: "string \<Rightarrow> bool"
    \<comment> \<open>\<^verbatim>\<open>re.compile(pattern)\<close> accepts the pattern\<close>
  re_match :: "string \<Rightarrow> string \<Rightarrow> bool"
    \<comment> \<open>\<^verbatim>\<open>re.compile(pattern).match(text)\<close> found a match\<close>
  re_findall :: "string \<Rightarrow> string \<Rightarrow> string list"
    \<comment> \<open>\<^verbatim>\<open>re.compile(pattern).findall(text)\<close>\<close>
  glob_json :: "string \<Rightarrow> string list"
    \<comment> \<open>\<^verbatim>\<open>glob.glob(os.path.join(dirname, '*.json'))\<close>\<close>
  basename :: "string \<Rightarrow> string"
    \<comment> \<open>\<^verbatim>\<open>os.path.basename\<close>\<close>
  open_json :: "string \<Rightarrow> error + pyval"
    \<comment> \<open>\<^verbatim>\<open>open(path)\<close> followed by \<^verbatim>\<open>json.load\<close>\<close>
  urlopen :: "string \<Rightarrow> error + string"
    \<comment> \<open>\<^verbatim>\<open>urlopen(url).read()\<close>: the bytes served at the URL\<close>
  decode_utf8 :: "string \<Rightarrow> error + string"
    \<comment> \<open>\<^verbatim>\<open>bytes.decode('utf-8')\<close>\<close>

text \<open>Tuples of integers compare lexicographically.\<close>

fun version_lt :: "version \<Rightarrow> version \<Rightarrow> bool" where
  "version_lt (a, b, c) (x, y, z) = (a < x \<or> (a = x \<and> (b < y \<or> (b = y \<and> c < z))))"

text \<open>The logger: each record is a level and a message.\<close>

datatype level = WARNING | ERROR

type_synonym log = "(level \<times> string) list"

section \<open>\<^verbatim>\<open>dict_merge\<close>\<close>

text \<open>
  \<^verbatim>\<open>REQUIREMENT_HIERARCHY\<close>, a dictionary whose keys are four strings and \<^verbatim>\<open>None\<close>.
\<close>

definition REQUIREMENT_HIERARCHY :: "(pyval \<times> nat) list" where
  "REQUIREMENT_HIERARCHY =
     [(PStr ''Mandatory'', 4),
      (PStr ''Recommended'', 3),
      (PStr ''IfImplemented'', 2),
      (PStr ''Supported'', 1),
      (PNone, 4)]"

text \<open>
  \<^verbatim>\<open>REQUIREMENT_HIERARCHY.get(r, 0)\<close>: the lookup hashes \<open>r\<close> first, which raises for
  a list or a dictionary; \<open>hierarchy r\<close> is the value found for a key that can be hashed.
\<close>

definition hierarchy :: "pyval \<Rightarrow> nat" where
  "hierarchy r =
     (case find (\<lambda>kv. py_eq r (fst kv)) REQUIREMENT_HIERARCHY of
        None \<Rightarrow> 0
      | Some kv \<Rightarrow> snd kv)"

definition hierarchy_get :: "pyval \<Rightarrow> error + nat" where
  "hierarchy_get r = (if \<not> hashable r then Inl TypeError else Inr (hierarchy r))"

definition get_more_restrictive_requirement ::
    "pyval \<Rightarrow> pyval \<Rightarrow> string \<Rightarrow> error + pyval" where
  "get_more_restrictive_requirement req1 req2 requirement_type =
     (if requirement_type = ''ReadRequirement'' then
        bindE (hierarchy_get req1) (\<lambda>h1.
          if h1 = 4 then Inr req1
          else bindE (hierarchy_get req2) (\<lambda>h2.
            if h2 = 4 then Inr req2
            else Inr (if req1 \<noteq> PNone then req1 else req2)))
      else
        bindE (hierarchy_get req1) (\<lambda>h1.
          bindE (hierarchy_get req2) (\<lambda>h2.
            Inr (if h2 < h1 then req2 else req1))))"

definition compare_versions :: "env \<Rightarrow> pyval \<Rightarrow> pyval \<Rightarrow> bool \<Rightarrow> error + pyval" where
  "compare_versions e ver1 ver2 use_max =
     (if ver1 = PNone then Inr ver2
      else if ver2 = PNone then Inr ver1
      else
        bindE (splitVersionString e (PStr (py_str e ver1))) (\<lambda>k1.
          bindE (splitVersionString e (PStr (py_str e ver2))) (\<lambda>k2.
            Inr (if use_max then (if version_lt k1 k2 then ver2 else ver1)
                 else (if version_lt k2 k1 then ver2 else ver1)))))"

text \<open>
  The loop of \<^verbatim>\<open>merge_lists\<close> over \<^verbatim>\<open>list1 + list2\<close>. \<open>seen\<close> is the set of keys met
  so far, in the order they were added; testing membership hashes the key.
\<close>

definition item_key :: "env \<Rightarrow> pyval \<Rightarrow> error + pyval" where
  "item_key e item =
     (case item of
        PDict kvs \<Rightarrow> bindE (json_dumps e item) (\<lambda>s. Inr (PStr s))
      | _ \<Rightarrow> Inr item)"

fun merge_lists_loop ::
    "env \<Rightarrow> pyval list \<Rightarrow> pyval list \<Rightarrow> pyval list \<Rightarrow> error + pyval list" where
  "merge_lists_loop e [] seen merged = Inr merged"
| "merge_lists_loop e (item # items) seen merged =
     (case item_key e item of
        Inl err \<Rightarrow> Inl err
      | Inr key \<Rightarrow>
          if \<not> hashable key then Inl TypeError
          else if \<not> py_in_list key seen
            then merge_lists_loop e items (seen @ [key]) (merged @ [item])
            else merge_lists_loop e items seen merged)"

definition merge_lists :: "env \<Rightarrow> pyval list \<Rightarrow> pyval list \<Rightarrow> error + pyval list" where
  "merge_lists e list1 list2 = merge_lists_loop e (list1 @ list2) [] []"

definition type_conflict_message :: "string \<Rightarrow> pyval \<Rightarrow> pyval \<Rightarrow> string" where
  "type_conflict_message k old v =
     ''Type conflict during merge for key '' @ [CHR 0x22] @ k @ [CHR 0x22] @ '': ''
       @ py_type_name old @ '' vs '' @ py_type_name v @ ''. Keeping existing value.''"

fun is_dict :: "pyval \<Rightarrow> bool" where
  "is_dict (PDict _) = True"
| "is_dict _ = False"

fun is_list :: "pyval \<Rightarrow> bool" where
  "is_list (PList _) = True"
| "is_list _ = False"

fun list_items :: "pyval \<Rightarrow> pyval list" where
  "list_items (PList xs) = xs"
| "list_items _ = []"

text \<open>
  The body of the loop \<^verbatim>\<open>for k, v in merge_dct.items()\<close>: the \<^verbatim>\<open>if\<close>/\<^verbatim>\<open>elif\<close> chain
  in the source's order. \<open>nested cur lg\<close> stands for the recursive call
  \<^verbatim>\<open>dict_merge(dct[k], v)\<close>. The result is the new contents of \<open>dct\<close> and the log.
\<close>

definition dict_merge_key ::
    "env \<Rightarrow> (pyval \<Rightarrow> log \<Rightarrow> error + (pyval \<times> log)) \<Rightarrow>
     pyval \<Rightarrow> string \<Rightarrow> pyval \<Rightarrow> log \<Rightarrow> error + (pyval \<times> log)" where
  "dict_merge_key e nested dct k v lg =
     (if k = ''ReadRequirement'' \<or> k = ''WriteRequirement'' then
        bindE (py_get dct k PNone) (\<lambda>cur.
        bindE (get_more_restrictive_requirement cur v k) (\<lambda>r.
        bindE (py_setitem dct k r) (\<lambda>dct'. Inr (dct', lg))))
      else
        bindE (py_contains k dct) (\<lambda>present.
        if \<not> present then bindE (py_setitem dct k v) (\<lambda>dct'. Inr (dct', lg))
        else
          bindE (py_getitem dct k) (\<lambda>cur.
          if k = ''MinVersion'' then
            bindE (compare_versions e cur v True) (\<lambda>r.
            bindE (py_setitem dct k r) (\<lambda>dct'. Inr (dct', lg)))
          else if k = ''MaxVersion'' then
            bindE (compare_versions e cur v False) (\<lambda>r.
            bindE (py_setitem dct k r) (\<lambda>dct'. Inr (dct', lg)))
          else if k = ''MinCount'' then
            bindE (py_max cur v) (\<lambda>r.
            bindE (py_setitem dct k r) (\<lambda>dct'. Inr (dct', lg)))
          else if k = ''MaxCount'' then
            bindE (py_min cur v) (\<lambda>r.
            bindE (py_setitem dct k r) (\<lambda>dct'. Inr (dct', lg)))
          else if is_dict cur \<and> is_dict v then
            bindE (nested cur lg) (\<lambda>r.
            bindE (py_setitem dct k (fst r)) (\<lambda>dct'. Inr (dct', snd r)))
          else if is_list cur \<and> is_list v then
            bindE (merge_lists e (list_items cur) (list_items v)) (\<lambda>r.
            bindE (py_setitem dct k (PList r)) (\<lambda>dct'. Inr (dct', lg)))
          else if py_type_name cur \<noteq> py_type_name v then
            Inr (dct, lg @ [(WARNING, type_conflict_message k cur v)])
          else Inr (dct, lg))))"

text \<open>
  \<open>dict_merge_loop e dct kvs lg\<close> runs the loop over the items \<open>kvs\<close> of
  \<^verbatim>\<open>merge_dct\<close>; \<open>dict_merge\<close> is the function itself, whose \<^verbatim>\<open>merge_dct.items()\<close>
  needs a dictionary.
\<close>

fun dict_merge_loop ::
    "env \<Rightarrow> pyval \<Rightarrow> (string \<times> pyval) list \<Rightarrow> log \<Rightarrow> error + (pyval \<times> log)" where
  "dict_merge_loop e dct [] lg = Inr (dct, lg)"
| "dict_merge_loop e dct ((k, v) # rest) lg =
     (case dict_merge_key e
             (\<lambda>cur lg'. case v of
                           PDict sub \<Rightarrow> dict_merge_loop e cur sub lg'
                         | _ \<Rightarrow> Inl AttributeError)
             dct k v lg of
        Inl err \<Rightarrow> Inl err
      | Inr r \<Rightarrow> dict_merge_loop e (fst r) rest (snd r))"

definition dict_merge :: "env \<Rightarrow> pyval \<Rightarrow> pyval \<Rightarrow> log \<Rightarrow> error + (pyval \<times> log)" where
  "dict_merge e dct merge_dct lg =
     (case merge_dct of
        PDict kvs \<Rightarrow> dict_merge_loop e dct kvs lg
      | _ \<Rightarrow> Inl AttributeError)"


section \<open>Locating a profile\<close>

text \<open>
  What the module keeps and does besides its results: the module-level
  \<^verbatim>\<open>profile_cache\<close>, the records sent to the logger, the URLs opened, the files opened
  and the exceptions printed by \<^verbatim>\<open>getProfileFromRepo\<close>.
\<close>

record state =
  profile_cache :: "(string \<times> pyval) list"
  logged :: log
  requests :: "string list"
  opened :: "string list"
  printed :: "error list"

definition log_record :: "level \<Rightarrow> string \<Rightarrow> state \<Rightarrow> state" where
  "log_record lv msg st = st\<lparr>logged := logged st @ [(lv, msg)]\<rparr>"

text \<open>\<^verbatim>\<open>s.split('.')\<close>, \<^verbatim>\<open>sep.join(parts)\<close> and \<^verbatim>\<open>s.replace('.', '\.')\<close>\<close>

fun split_dot :: "string \<Rightarrow> string list" where
  "split_dot [] = [[]]"
| "split_dot (c # s) =
     (if c = CHR ''.'' then [] # split_dot s
      else (case split_dot s of [] \<Rightarrow> [[c]] | w # ws \<Rightarrow> (c # w) # ws))"

fun py_join :: "string \<Rightarrow> string list \<Rightarrow> string" where
  "py_join sep [] = []"
| "py_join sep [x] = x"
| "py_join sep (x # y # ys) = x @ sep @ py_join sep (y # ys)"

definition escape_dots :: "string \<Rightarrow> string" where
  "escape_dots s = concat (map (\<lambda>c. if c = CHR ''.'' then [CHR 0x5C, CHR ''.''] else [c]) s)"

text \<open>\<^verbatim>\<open>r'\.{}\.'.format(versionpattern)\<close>\<close>

definition version_infix :: "env \<Rightarrow> string" where
  "version_infix e = [CHR 0x5C, CHR ''.''] @ versionpattern e @ [CHR 0x5C, CHR ''.'']"

text \<open>
  \<^verbatim>\<open>getProfilesMatchingName\<close> is a generator; the model is the list that
  \<^verbatim>\<open>list(...)\<close> collects from it. Compiling the pattern may raise.
\<close>

definition getProfilesMatchingName :: "env \<Rightarrow> string \<Rightarrow> string list \<Rightarrow> error + string list" where
  "getProfilesMatchingName e name directories =
     (let filepattern = py_join (version_infix e) (split_dot name) @ ''|'' @ escape_dots name
      in if \<not> re_compiles e filepattern then Inl PatternError
         else Inr (concat (map (\<lambda>dirname.
                 filter (\<lambda>file. re_match e filepattern (basename e file)) (glob_json e dirname))
               directories)))"

definition defaultrepository :: string where
  "defaultrepository = ''http://redfish.dmtf.org/profiles''"

text \<open>
  The loop of \<^verbatim>\<open>getProfileFromRepo\<close> over the matches: each loses its last character
  (\<^verbatim>\<open>filename[:-1]\<close>) and the greatest string is kept.
\<close>

fun max_filename :: "string option \<Rightarrow> string list \<Rightarrow> string option" where
  "max_filename profilename [] = profilename"
| "max_filename profilename (filename # rest) =
     (let filename' = butlast filename
      in case profilename of
           None \<Rightarrow> max_filename (Some filename') rest
         | Some p \<Rightarrow> max_filename (Some (if str_lt p filename' then filename' else p)) rest)"

text \<open>
  The \<^verbatim>\<open>try\<close> block of \<^verbatim>\<open>getProfileFromRepo\<close>: the value returned or the exception
  raised, and the state, in which every URL opened is recorded.
\<close>

definition getProfileFromRepo_try ::
    "env \<Rightarrow> string \<Rightarrow> pyval \<Rightarrow> state \<Rightarrow> (error + pyval) \<times> state" where
  "getProfileFromRepo_try e profilename repo st =
     (case (if repo = PNone then PStr ''http://redfish.dmtf.org/profiles'' else repo) of
        PStr url \<Rightarrow>
          (let st1 = st\<lparr>requests := requests st @ [url]\<rparr>
           in case bindE (urlopen e url) (decode_utf8 e) of
                Inl err \<Rightarrow> (Inl err, st1)
              | Inr string \<Rightarrow>
                  (let filepattern = py_join (version_infix e) (split_dot profilename)
                   in if \<not> re_compiles e filepattern then (Inl PatternError, st1)
                      else case max_filename None (re_findall e filepattern string) of
                             None \<Rightarrow> (Inr PNone, st1)
                           | Some p \<Rightarrow>
                               (let url2 = url @ ''/'' @ p
                                in (bindE (urlopen e url2) (\<lambda>content. Inr (PBytes content)),
                                    st1\<lparr>requests := requests st1 @ [url2]\<rparr>))))
      | _ \<Rightarrow> (Inl TypeError, st))"

text \<open>\<^verbatim>\<open>except Exception as e: print(e); return None\<close>\<close>

definition getProfileFromRepo :: "env \<Rightarrow> string \<Rightarrow> pyval \<Rightarrow> state \<Rightarrow> pyval \<times> state" where
  "getProfileFromRepo e profilename repo st =
     (case getProfileFromRepo_try e profilename repo st of
        (Inl err, st1) \<Rightarrow> (PNone, st1\<lparr>printed := printed st1 @ [err]\<rparr>)
      | (Inr data, st1) \<Rightarrow> (data, st1))"

text \<open>
  The loop of \<^verbatim>\<open>parseProfileInclude\<close> over the local candidates: every file is opened
  and parsed, and the one of the highest \<^verbatim>\<open>ProfileVersion\<close> is kept.
\<close>

fun scan_candidates ::
    "env \<Rightarrow> string list \<Rightarrow> version \<Rightarrow> pyval \<Rightarrow> state \<Rightarrow> error + (version \<times> pyval \<times> state)" where
  "scan_candidates e [] max_version data st = Inr (max_version, data, st)"
| "scan_candidates e (target_name # rest) max_version data st =
     (case bindE (open_json e target_name) (\<lambda>my_profile.
             bindE (py_get my_profile ''ProfileVersion'' (PStr ''1.0.0'')) (\<lambda>pv.
             bindE (splitVersionString e pv) (\<lambda>my_version. Inr (my_profile, my_version)))) of
        Inl err \<Rightarrow> Inl err
      | Inr r \<Rightarrow>
          (let my_profile = fst r; my_version = snd r;
               max_version' = (if version_lt max_version my_version then my_version
                               else max_version)
           in scan_candidates e rest max_version'
                (if my_version = max_version' \<or> data = PNone then my_profile else data)
                (st\<lparr>opened := opened st @ [target_name]\<rparr>)))"

text \<open>
  \<^verbatim>\<open>parseProfileInclude\<close>. The source also formats \<^verbatim>\<open>target_version\<close> from
  \<^verbatim>\<open>min_version\<close>; the string is not used afterwards. The \<^verbatim>\<open>MinVersion\<close> of the
  reference is read and split before the cache is looked at.
\<close>

definition parseProfileInclude ::
    "env \<Rightarrow> string \<Rightarrow> pyval \<Rightarrow> string list \<Rightarrow> bool \<Rightarrow> state \<Rightarrow> error + (pyval \<times> state)" where
  "parseProfileInclude e target_name target_profile_info directories online st =
     bindE (py_get target_profile_info ''MinVersion'' (PStr ''1.0.0'')) (\<lambda>mv.
     bindE (splitVersionString e mv) (\<lambda>min_version.
     let target_file = target_name @ ''.json''
     in case map_of (profile_cache st) target_file of
          Some cached \<Rightarrow> Inr (cached, st)
        | None \<Rightarrow>
            bindE (py_get target_profile_info ''Repository'' PNone) (\<lambda>repo.
            let (data, st1) = (if online then getProfileFromRepo e target_file repo st
                               else (PNone, st))
            in bindE
                 (if data = PNone then
                    bindE (getProfilesMatchingName e target_file directories) (\<lambda>target_list.
                    if target_list \<noteq> [] then
                      bindE (scan_candidates e target_list (1, 0, 0) data st1) (\<lambda>(max_version, data', st2).
                      Inr (data',
                           if version_lt max_version min_version
                           then log_record WARNING
                                  ''RequiredProfile Version Warning: File version smaller than target MinVersion''
                                  st2
                           else st2))
                    else
                      Inr (PNone,
                           log_record ERROR
                             (''RequiredProfile Import Error: Could not acquire this profile from local source or online ''
                                @ target_name @ '' '' @ py_str e repo)
                             st1))
                  else Inr (data, st1))
                 (\<lambda>(data', st3).
                    Inr (data', st3\<lparr>profile_cache := dict_set (profile_cache st3) target_file data'\<rparr>)))))"

section \<open>\<^verbatim>\<open>getProfiles\<close>\<close>

text \<open>
  The inner loop of the whole-profile import (source lines 244 to 247): every resource
  of the included profile is merged into \<^verbatim>\<open>profile['Resources']\<close>.
\<close>

fun merge_resources ::
    "env \<Rightarrow> (string \<times> pyval) list \<Rightarrow> pyval \<Rightarrow> log \<Rightarrow> error + (pyval \<times> log)" where
  "merge_resources e [] profile lg = Inr (profile, lg)"
| "merge_resources e ((resource_type, resource_data) # rest) profile lg =
     (case bindE (py_getitem profile ''Resources'') (\<lambda>res.
             bindE (py_contains resource_type res) (\<lambda>present.
             bindE (if \<not> present then py_setitem res resource_type (PDict []) else Inr res) (\<lambda>res1.
             bindE (py_getitem res1 resource_type) (\<lambda>cur.
             bindE (dict_merge e cur resource_data lg) (\<lambda>(cur', lg').
             bindE (py_setitem res1 resource_type cur') (\<lambda>res2.
             bindE (py_setitem profile ''Resources'' res2) (\<lambda>profile'.
             Inr (profile', lg')))))))) of
        Inl err \<Rightarrow> Inl err
      | Inr r \<Rightarrow> merge_resources e rest (fst r) (snd r))"

text \<open>
  What one call of \<^verbatim>\<open>getProfiles\<close> leaves behind: the two lists it returns, the new
  contents of the profile it was given, the chain (a list the callers share) and the
  state.
\<close>

record resolution =
  profile_includes :: "pyval list"
  required_by_resource :: "pyval list"
  profile :: pyval
  chain :: "pyval list"
  final :: state

text \<open>
  The body of the loop over \<^verbatim>\<open>RequiredProfiles\<close> (source lines 237 to 253).
  \<open>recurse\<close> stands for the call \<^verbatim>\<open>getProfiles(profile_data, directories, chain)\<close>.
  The included profile is the object held by the cache, so what the recursive call
  merges into it is stored there.
\<close>

definition include_required ::
    "env \<Rightarrow> (pyval \<Rightarrow> pyval list \<Rightarrow> state \<Rightarrow> error + resolution) \<Rightarrow> string list \<Rightarrow> bool \<Rightarrow>
     string \<Rightarrow> pyval \<Rightarrow> resolution \<Rightarrow> error + resolution" where
  "include_required e recurse directories online target_name target_profile_info acc =
     bindE (parseProfileInclude e target_name target_profile_info directories online (final acc))
       (\<lambda>(profile_data, st1).
     if py_truthy profile_data then
       bindE (py_contains ''Resources'' (profile acc)) (\<lambda>present.
       bindE (if \<not> present then py_setitem (profile acc) ''Resources'' (PDict [])
              else Inr (profile acc)) (\<lambda>profile1.
       bindE (py_get profile_data ''Resources'' (PDict [])) (\<lambda>included_resources.
       bindE (py_items included_resources) (\<lambda>items.
       bindE (merge_resources e items profile1 (logged st1)) (\<lambda>(profile2, lg2).
       bindE (recurse profile_data (chain acc) (st1\<lparr>logged := lg2\<rparr>)) (\<lambda>inner.
       Inr \<lparr>profile_includes =
              profile_includes acc @ [profile inner] @ profile_includes inner,
            required_by_resource = required_by_resource acc @ required_by_resource inner,
            profile = profile2,
            chain = chain inner,
            final = (final inner)\<lparr>profile_cache :=
              dict_set (profile_cache (final inner)) (target_name @ ''.json'') (profile inner)\<rparr>\<rparr>))))))
     else Inr (acc\<lparr>final := st1\<rparr>))"

fun required_loop ::
    "env \<Rightarrow> (pyval \<Rightarrow> pyval list \<Rightarrow> state \<Rightarrow> error + resolution) \<Rightarrow> string list \<Rightarrow> bool \<Rightarrow>
     (string \<times> pyval) list \<Rightarrow> resolution \<Rightarrow> error + resolution" where
  "required_loop e recurse directories online [] acc = Inr acc"
| "required_loop e recurse directories online ((target_name, target_profile_info) # rest) acc =
     (case include_required e recurse directories online target_name target_profile_info acc of
        Inl err \<Rightarrow> Inl err
      | Inr acc' \<Rightarrow> required_loop e recurse directories online rest acc')"

text \<open>
  The body of the loop over one object's \<^verbatim>\<open>RequiredResourceProfile\<close> (source lines 268
  to 276): the new contents of \<^verbatim>\<open>inner_object\<close>, the list \<^verbatim>\<open>required_by_resource\<close> and
  the state.
\<close>

definition import_resource ::
    "env \<Rightarrow> string list \<Rightarrow> bool \<Rightarrow> string \<Rightarrow> string \<Rightarrow> pyval \<Rightarrow>
     pyval \<Rightarrow> pyval list \<Rightarrow> state \<Rightarrow> error + (pyval \<times> pyval list \<times> state)" where
  "import_resource e directories online resource_name target_name target_profile_info
       inner_object reqs st =
     bindE (parseProfileInclude e target_name target_profile_info directories online st)
       (\<lambda>(profile_data, st1).
     if py_truthy profile_data then
       bindE (py_get profile_data ''Resources'' PNone) (\<lambda>target_resources.
       bindE (py_contains resource_name target_resources) (\<lambda>present.
       if present then
         bindE (py_getitem target_resources resource_name) (\<lambda>block.
         bindE (dict_merge e inner_object block (logged st1)) (\<lambda>(inner', lg').
         Inr (inner', reqs @ [profile_data], st1\<lparr>logged := lg'\<rparr>)))
       else
         Inr (inner_object, reqs,
              log_record ERROR
                (''RequiredProfiles Import Error: Import '' @ target_name
                   @ '' does not have Resource '' @ resource_name)
                st1)))
     else Inr (inner_object, reqs, st1))"

text \<open>
  The loop \<^verbatim>\<open>for target_name, target_profile_info in required_profiles.items()\<close> of the
  resource-scoped import. The dictionary iterated is part of \<^verbatim>\<open>inner_object\<close>, which
  the body merges into, so the loop reads it as it is at each step: \<open>i\<close> is the position
  reached, \<open>n\<close> the size of the dictionary when the loop began, and a dictionary that
  changed size raises \<^verbatim>\<open>RuntimeError\<close>.
\<close>

function import_loop ::
    "env \<Rightarrow> string list \<Rightarrow> bool \<Rightarrow> string \<Rightarrow> nat \<Rightarrow> nat \<Rightarrow>
     pyval \<Rightarrow> pyval list \<Rightarrow> state \<Rightarrow> error + (pyval \<times> pyval list \<times> state)" where
  "import_loop e directories online resource_name i n inner_object reqs st =
     (case bindE (py_get inner_object ''RequiredResourceProfile'' (PDict [])) py_items of
        Inl err \<Rightarrow> Inl err
      | Inr kvs \<Rightarrow>
          if length kvs \<noteq> n then Inl RuntimeError
          else if n \<le> i then Inr (inner_object, reqs, st)
          else
            (case import_resource e directories online resource_name
                    (fst (kvs ! i)) (snd (kvs ! i)) inner_object reqs st of
               Inl err \<Rightarrow> Inl err
             | Inr r \<Rightarrow>
                 import_loop e directories online resource_name (Suc i) n
                   (fst r) (fst (snd r)) (snd (snd r))))"
  by pat_completeness auto
termination
  by (relation "measure (\<lambda>(e, directories, online, resource_name, i, n, rest). n - i)") auto

declare import_loop.simps [simp del]

text \<open>\<^verbatim>\<open>for x in obj\<close>: what iterating over an object yields.\<close>

fun py_iter :: "pyval \<Rightarrow> error + pyval list" where
  "py_iter (PList xs) = Inr xs"
| "py_iter (PDict kvs) = Inr (map (\<lambda>kv. PStr (fst kv)) kvs)"
| "py_iter (PStr s) = Inr (map (\<lambda>c. PStr [c]) s)"
| "py_iter (PBytes s) = Inr (map (\<lambda>c. PInt (int (of_char c))) s)"
| "py_iter _ = Inl TypeError"

text \<open>
  The loop \<^verbatim>\<open>for inner_object in modifying_objects\<close>: the objects as the imports leave
  them.
\<close>

fun objects_loop ::
    "env \<Rightarrow> string list \<Rightarrow> bool \<Rightarrow> string \<Rightarrow> pyval list \<Rightarrow> pyval list \<Rightarrow> state \<Rightarrow>
     error + (pyval list \<times> pyval list \<times> state)" where
  "objects_loop e directories online resource_name [] reqs st = Inr ([], reqs, st)"
| "objects_loop e directories online resource_name (inner_object # rest) reqs st =
     (case bindE (bindE (py_get inner_object ''RequiredResourceProfile'' (PDict [])) py_items)
             (\<lambda>kvs. import_loop e directories online resource_name 0 (length kvs)
                       inner_object reqs st) of
        Inl err \<Rightarrow> Inl err
      | Inr r \<Rightarrow>
          (case objects_loop e directories online resource_name rest (fst (snd r)) (snd (snd r)) of
             Inl err \<Rightarrow> Inl err
           | Inr r' \<Rightarrow> Inr (fst r # fst r', snd r')))"

text \<open>
  One resource (source lines 259 to 276): the objects modified are the resource
  itself or the elements of its \<^verbatim>\<open>UseCases\<close>; the result holds the new contents of the
  resource.
\<close>

definition process_resource ::
    "env \<Rightarrow> string list \<Rightarrow> bool \<Rightarrow> string \<Rightarrow> pyval \<Rightarrow> pyval list \<Rightarrow> state \<Rightarrow>
     error + (pyval \<times> pyval list \<times> state)" where
  "process_resource e directories online resource_name resource reqs st =
     bindE (py_contains ''UseCases'' resource) (\<lambda>has_use_cases.
     if \<not> has_use_cases then
       bindE (objects_loop e directories online resource_name [resource] reqs st)
         (\<lambda>(objs, reqs', st'). Inr (hd objs, reqs', st'))
     else
       bindE (py_getitem resource ''UseCases'') (\<lambda>use_cases.
       bindE (py_iter use_cases) (\<lambda>modifying_objects.
       bindE (objects_loop e directories online resource_name modifying_objects reqs st)
         (\<lambda>(objs, reqs', st').
       bindE (if is_list use_cases then py_setitem resource ''UseCases'' (PList objs)
              else Inr resource) (\<lambda>resource'.
       Inr (resource', reqs', st'))))))"

fun resources_loop ::
    "env \<Rightarrow> string list \<Rightarrow> bool \<Rightarrow> (string \<times> pyval) list \<Rightarrow> pyval list \<Rightarrow> state \<Rightarrow>
     error + ((string \<times> pyval) list \<times> pyval list \<times> state)" where
  "resources_loop e directories online [] reqs st = Inr ([], reqs, st)"
| "resources_loop e directories online ((resource_name, resource) # rest) reqs st =
     (case process_resource e directories online resource_name resource reqs st of
        Inl err \<Rightarrow> Inl err
      | Inr r \<Rightarrow>
          (case resources_loop e directories online rest (fst (snd r)) (snd (snd r)) of
             Inl err \<Rightarrow> Inl err
           | Inr r' \<Rightarrow> Inr ((resource_name, fst r) # fst r', snd r')))"

definition cyclical_import_message :: "env \<Rightarrow> pyval list \<Rightarrow> pyval \<Rightarrow> string" where
  "cyclical_import_message e chain0 profile_name =
     ''RequiredProfiles Import Error: Suspected duplicate/cyclical import error: ''
       @ py_str e (PList chain0) @ '' '' @ py_str e profile_name"

text \<open>
  The body of \<^verbatim>\<open>getProfiles\<close>, with \<open>recurse\<close> for its recursive call.
\<close>

definition getProfiles_body ::
    "env \<Rightarrow> (pyval \<Rightarrow> pyval list \<Rightarrow> state \<Rightarrow> error + resolution) \<Rightarrow>
     pyval \<Rightarrow> string list \<Rightarrow> pyval list option \<Rightarrow> bool \<Rightarrow> state \<Rightarrow> error + resolution" where
  "getProfiles_body e recurse profile0 directories chain_arg online st =
     bindE (py_get profile0 ''ProfileName'' PNone) (\<lambda>profile_name.
     let chain0 = (case chain_arg of None \<Rightarrow> [] | Some c \<Rightarrow> c)
     in if py_in_list profile_name chain0 then
          Inr \<lparr>profile_includes = [], required_by_resource = [], profile = profile0,
               chain = chain0,
               final = log_record ERROR (cyclical_import_message e chain0 profile_name) st\<rparr>
        else
          bindE (py_get profile0 ''RequiredProfiles'' (PDict [])) (\<lambda>required_profiles.
          bindE (py_items required_profiles) (\<lambda>items.
          bindE (required_loop e recurse directories online items
                   \<lparr>profile_includes = [], required_by_resource = [], profile = profile0,
                    chain = chain0 @ [profile_name], final = st\<rparr>) (\<lambda>acc.
          bindE (py_get (profile acc) ''Resources'' (PDict [])) (\<lambda>profile_resources.
          bindE (py_items profile_resources) (\<lambda>ritems.
          bindE (resources_loop e directories online ritems (required_by_resource acc) (final acc))
            (\<lambda>(ritems', reqs', st').
          bindE (py_contains ''Resources'' (profile acc)) (\<lambda>present.
          bindE (if present then py_setitem (profile acc) ''Resources'' (PDict ritems')
                 else Inr (profile acc)) (\<lambda>profile'.
          Inr (acc\<lparr>required_by_resource := reqs', profile := profile', final := st'\<rparr>))))))))))"

text \<open>
  \<^verbatim>\<open>getProfiles(profile, directories, chain, online)\<close>. The first argument is the number
  of nested calls the interpreter still allows; a call beyond it raises
  \<^verbatim>\<open>RecursionError\<close>. The recursive call passes \<^verbatim>\<open>profile_data\<close>, \<^verbatim>\<open>directories\<close> and
  \<^verbatim>\<open>chain\<close> only, so its \<^verbatim>\<open>online\<close> is the default \<^verbatim>\<open>False\<close>.
\<close>

fun getProfiles ::
    "nat \<Rightarrow> env \<Rightarrow> pyval \<Rightarrow> string list \<Rightarrow> pyval list option \<Rightarrow> bool \<Rightarrow> state \<Rightarrow>
     error + resolution" where
  "getProfiles 0 e profile0 directories chain_arg online st = Inl RecursionError"
| "getProfiles (Suc depth) e profile0 directories chain_arg online st =
     getProfiles_body e
       (\<lambda>profile_data chain1 st1.
          getProfiles depth e profile_data directories (Some chain1) False st1)
       profile0 directories chain_arg online st"

section \<open>A sample world\<close>

text \<open>
  A small world on which the functions can be run: a directory \<^verbatim>\<open>profiles\<close> with three
  files and a repository whose index lists one profile, \<^verbatim>\<open>R\<close>. The repository serves a
  document under the name \<^verbatim>\<open>getProfileFromRepo\<close> asks for, which is the listed name
  without its last character.
\<close>

definition profile_A :: pyval where
  "profile_A =
     PDict [(''ProfileName'', PStr ''A''),
            (''RequiredProfiles'', PDict [(''A'', PDict [])])]"

definition profile_B :: pyval where
  "profile_B =
     PDict [(''ProfileName'', PStr ''B''),
            (''RequiredProfiles'', PDict [(''R'', PDict [])]),
            (''Resources'',
               PDict [(''Chassis'', PDict [(''ReadRequirement'', PStr ''Recommended'')])])]"

definition profile_D :: pyval where
  "profile_D = PDict [(''ProfileName'', PStr ''D'')]"

definition profile_R_bytes :: string where
  "profile_R_bytes =
     ''{'' @ [CHR 0x22] @ ''ProfileName'' @ [CHR 0x22] @ '': ''
       @ [CHR 0x22] @ ''R'' @ [CHR 0x22] @ ''}''"

definition sample_env :: env where
  "sample_env = \<lparr>
     versionpattern = ''v[0-9]+_[0-9]+_[0-9]+'',
     splitVersionString = (\<lambda>v. if v = PStr ''1.0.0'' then Inr (1, 0, 0) else Inr (0, 0, 0)),
     py_str = (\<lambda>v. case v of PStr s \<Rightarrow> s | PNone \<Rightarrow> ''None'' | _ \<Rightarrow> ''[...]''),
     json_dumps = (\<lambda>v. Inr ''{}''),
     re_compiles = (\<lambda>p. True),
     re_match = (\<lambda>p t. is_substring (''|'' @ escape_dots t) p),
     re_findall = (\<lambda>p text. if is_prefix ''R'' p \<and> text = ''R.v1_0_0.json''
                              then [''R.v1_0_0.json''] else []),
     glob_json = (\<lambda>d. if d = ''profiles'' then [''A.json'', ''B.json'', ''D.json''] else []),
     basename = (\<lambda>f. f),
     open_json = (\<lambda>f. if f = ''A.json'' then Inr profile_A
                       else if f = ''B.json'' then Inr profile_B
                       else if f = ''D.json'' then Inr profile_D
                       else Inl OSError),
     urlopen = (\<lambda>u. if u = ''http://redfish.dmtf.org/profiles'' then Inr ''R.v1_0_0.json''
                     else if u = ''http://redfish.dmtf.org/profiles/R.v1_0_0.jso''
                       then Inr profile_R_bytes
                     else Inl OSError),
     decode_utf8 = Inr
   \<rparr>"

definition st0 :: state where
  "st0 = \<lparr>profile_cache = [], logged = [], requests = [], opened = [], printed = []\<rparr>"

text \<open>A profile that imports the resource \<^verbatim>\<open>Fan\<close> from the profile named \<open>name\<close>.\<close>

definition fan_importer :: "string \<Rightarrow> pyval" where
  "fan_importer name =
     PDict [(''ProfileName'', PStr ''T''),
            (''Resources'',
               PDict [(''Fan'', PDict [(''RequiredResourceProfile'', PDict [(name, PDict [])])])])]"

section \<open>Properties of \<^verbatim>\<open>dict_merge\<close>\<close>

lemma bindE_simps [simp]: "bindE (Inl e) f = Inl e" "bindE (Inr x) f = f x"
  by (simp_all add: bindE_def)

lemma hierarchy_values:
  "hierarchy (PStr ''Mandatory'') = 4" "hierarchy (PStr ''Recommended'') = 3"
  "hierarchy (PStr ''IfImplemented'') = 2" "hierarchy (PStr ''Supported'') = 1"
  "hierarchy PNone = 4"
  by (simp_all add: hierarchy_def REQUIREMENT_HIERARCHY_def)



lemma hierarchy_4: "hierarchy x = 4 \<longleftrightarrow> x = PNone \<or> x = PStr ''Mandatory''"
  by (cases x) (auto simp: hierarchy_def REQUIREMENT_HIERARCHY_def)

lemma py_in_list_strs: "py_in_list (PStr z) (map PStr acc) = (z \<in> set acc)"
  by (induction acc) (auto simp: py_in_list_def)

lemma remdups_drop_later: "z \<in> set bs \<Longrightarrow> remdups (as @ z # bs) = remdups (as @ bs)"
  by (induction as) auto

lemma merge_lists_loop_strs:
  "merge_lists_loop e (map PStr zs) (map PStr acc) (map PStr acc)
   = Inr (map PStr (rev (remdups (rev (acc @ zs)))))" if "distinct acc"
  using that
proof (induction zs arbitrary: acc)
  case Nil
  then show ?case by (simp add: distinct_remdups_id)
next
  case (Cons z zs)
  show ?case
  proof (cases "z \<in> set acc")
    case True
    then have "remdups (rev zs @ z # rev acc) = remdups (rev zs @ rev acc)"
      by (intro remdups_drop_later) simp
    with True Cons show ?thesis
      by (simp add: item_key_def py_in_list_strs)
  next
    case False
    with Cons.prems have d: "distinct (acc @ [z])" by simp
    from Cons.IH [OF d] False show ?thesis
      by (simp add: item_key_def py_in_list_strs)
  qed
qed

text \<open>
  C1. The claim asks that merging \<^verbatim>\<open>ReadRequirement\<close> keeps the more restrictive of two
  values that are both below \<^verbatim>\<open>Mandatory\<close>, so that a destination \<^verbatim>\<open>Supported\<close> merged
  with a source \<^verbatim>\<open>Recommended\<close> becomes \<^verbatim>\<open>Recommended\<close>. The code keeps the
  destination's value: the merge leaves \<^verbatim>\<open>Supported\<close> in place.
\<close>

theorem read_requirement_keeps_destination:
  "dict_merge e (PDict [(''ReadRequirement'', PStr ''Supported'')])
     (PDict [(''ReadRequirement'', PStr ''Recommended'')]) lg
   = Inr (PDict [(''ReadRequirement'', PStr ''Supported'')], lg)"
  by (simp add: dict_merge_def dict_merge_key_def get_more_restrictive_requirement_def
      hierarchy_get_def hierarchy_values)

text \<open>
  The other half of the claim holds: when the destination's value (\<^verbatim>\<open>None\<close> when the
  key is absent) or the source's value is \<^verbatim>\<open>Mandatory\<close> or \<^verbatim>\<open>None\<close>, the value stored
  is \<^verbatim>\<open>Mandatory\<close> or \<^verbatim>\<open>None\<close>.
\<close>

theorem read_requirement_mandatory_wins:
  assumes "py_get (PDict dct) ''ReadRequirement'' PNone = Inr cur"
    and "cur \<in> {PNone, PStr ''Mandatory''} \<or> (hashable cur \<and> v \<in> {PNone, PStr ''Mandatory''})"
  shows "\<exists>r. dict_merge e (PDict dct) (PDict ((''ReadRequirement'', v) # rest)) lg
             = dict_merge e (PDict (dict_set dct ''ReadRequirement'' r)) (PDict rest) lg
           \<and> r \<in> {PNone, PStr ''Mandatory''}"
  using assms
  by (auto simp add: dict_merge_def dict_merge_key_def get_more_restrictive_requirement_def
      hierarchy_get_def hierarchy_values hierarchy_4)

theorem read_requirement_mandatory_wins_witness:
  "py_get (PDict [(''ReadRequirement'', PStr ''Mandatory'')]) ''ReadRequirement'' PNone
     = Inr (PStr ''Mandatory'')
   \<and> (\<exists>r. dict_merge sample_env (PDict [(''ReadRequirement'', PStr ''Mandatory'')])
             (PDict [(''ReadRequirement'', PStr ''Recommended'')]) []
           = Inr (PDict [(''ReadRequirement'', r)], [])
         \<and> r \<in> {PNone, PStr ''Mandatory''})"
proof -
  have h: "py_get (PDict [(''ReadRequirement'', PStr ''Mandatory'')]) ''ReadRequirement'' PNone
     = Inr (PStr ''Mandatory'')" by simp
  have "PStr ''Mandatory'' \<in> {PNone, PStr ''Mandatory''}
       \<or> (hashable (PStr ''Mandatory'') \<and> PStr ''Recommended'' \<in> {PNone, PStr ''Mandatory''})"
    by simp
  from read_requirement_mandatory_wins [OF h this, of sample_env "[]" "[]"]
  obtain r where
    "dict_merge sample_env (PDict [(''ReadRequirement'', PStr ''Mandatory'')])
        (PDict [(''ReadRequirement'', PStr ''Recommended'')]) []
      = dict_merge sample_env
          (PDict (dict_set [(''ReadRequirement'', PStr ''Mandatory'')] ''ReadRequirement'' r))
          (PDict []) []"
    and "r \<in> {PNone, PStr ''Mandatory''}"
    by blast
  with h show ?thesis by (auto simp: dict_merge_def)
qed





text \<open>
  C8. The claim asks that two sequences under one key always merge into their union.
  A sequence that holds a sequence cannot be merged: the nested list is used as a set
  member, which raises \<^verbatim>\<open>TypeError\<close>.
\<close>

theorem merge_nested_lists_raises:
  "dict_merge e (PDict [(''Values'', PList [PList [PInt 1]])])
     (PDict [(''Values'', PList [PList [PInt 2]])]) lg = Inl TypeError"
  by (simp add: dict_merge_def dict_merge_key_def merge_lists_def item_key_def)

text \<open>
  Two sequences of strings do merge into their union: every string once, in the order
  of its first occurrence (\<open>remdups\<close> keeps the last occurrence of each element, hence
  the two reversals).
\<close>

theorem merge_lists_of_strings:
  "merge_lists e (map PStr xs) (map PStr ys) = Inr (map PStr (rev (remdups (rev (xs @ ys)))))"
  using merge_lists_loop_strs [of "[]" e "xs @ ys"] by (simp add: merge_lists_def)

lemma merge_lists_example:
  "merge_lists e [PStr ''A'', PStr ''B''] [PStr ''B'', PStr ''C''] = Inr [PStr ''A'', PStr ''B'', PStr ''C'']"
  using merge_lists_of_strings [of e "[''A'', ''B'']" "[''B'', ''C'']"] by simp



section \<open>Properties of \<^verbatim>\<open>parseProfileInclude\<close>\<close>

text \<open>
  C2. The claim asks that a successful remote lookup returns the profile as a parsed
  document. \<^verbatim>\<open>getProfileFromRepo\<close> returns what \<^verbatim>\<open>remotefile.read()\<close> gives, and
  \<^verbatim>\<open>parseProfileInclude\<close> caches and returns these bytes as they are. The file asked for
  is the listed name without its last character.
\<close>

theorem remote_profile_returned_unparsed:
  "parseProfileInclude sample_env ''R'' (PDict []) [''profiles''] True st0
   = Inr (PBytes profile_R_bytes,
          st0\<lparr>profile_cache := [(''R.json'', PBytes profile_R_bytes)],
              requests := [''http://redfish.dmtf.org/profiles'',
                           ''http://redfish.dmtf.org/profiles/R.v1_0_0.jso'']\<rparr>)"
  by code_simp

text \<open>The resolver then calls \<^verbatim>\<open>get\<close> on the bytes.\<close>

theorem remote_profile_breaks_resolution:
  "getProfiles 2 sample_env
     (PDict [(''ProfileName'', PStr ''T''), (''RequiredProfiles'', PDict [(''R'', PDict [])])])
     [''profiles''] None True st0 = Inl AttributeError"
  by code_simp



section \<open>Properties of \<^verbatim>\<open>getProfiles\<close>\<close>

text \<open>
  C3. The claim asks that a resource-scoped import from a profile that lacks the
  resource completes with one error logged. When the imported profile has no
  \<^verbatim>\<open>Resources\<close> at all, \<^verbatim>\<open>profile_data.get('Resources')\<close> is \<^verbatim>\<open>None\<close> and the membership
  test raises \<^verbatim>\<open>TypeError\<close>.
\<close>

theorem scoped_import_without_resources_raises:
  "getProfiles 1 sample_env (fan_importer ''D'') [''profiles''] None False st0 = Inl TypeError"
  by code_simp

text \<open>
  When the imported profile has a dictionary of \<^verbatim>\<open>Resources\<close> without the resource,
  the import does what the claim says: the object is left as it is and one error is
  logged.
\<close>

theorem scoped_import_missing_key:
  assumes "parseProfileInclude e target_name info directories online st = Inr (profile_data, st1)"
    and "py_truthy profile_data"
    and "py_get profile_data ''Resources'' PNone = Inr (PDict target_resources)"
    and "resource_name \<notin> set (map fst target_resources)"
  shows "import_resource e directories online resource_name target_name info inner_object reqs st
     = Inr (inner_object, reqs,
            st1\<lparr>logged := logged st1 @
              [(ERROR, ''RequiredProfiles Import Error: Import '' @ target_name
                         @ '' does not have Resource '' @ resource_name)]\<rparr>)"
  using assms by (simp add: import_resource_def log_record_def)

lemma scoped_import_missing_key_run:
  "getProfiles 1 sample_env (fan_importer ''B'') [''profiles''] None False st0
   = Inr \<lparr>profile_includes = [], required_by_resource = [],
          profile = fan_importer ''B'', chain = [PStr ''T''],
          final = st0\<lparr>profile_cache := [(''B.json'', profile_B)],
                     logged := [(ERROR, ''RequiredProfiles Import Error: Import B does not have Resource Fan'')],
                     opened := [''B.json'']\<rparr>\<rparr>"
  by code_simp

theorem scoped_import_missing_key_witness:
  "parseProfileInclude sample_env ''B'' (PDict []) [''profiles''] False st0
     = Inr (profile_B, st0\<lparr>profile_cache := [(''B.json'', profile_B)], opened := [''B.json'']\<rparr>)
   \<and> import_resource sample_env [''profiles''] False ''Fan'' ''B'' (PDict [])
        (PDict [(''RequiredResourceProfile'', PDict [(''B'', PDict [])])]) [] st0
     = Inr (PDict [(''RequiredResourceProfile'', PDict [(''B'', PDict [])])], [],
            st0\<lparr>profile_cache := [(''B.json'', profile_B)], opened := [''B.json''],
                logged := [(ERROR, ''RequiredProfiles Import Error: Import B does not have Resource Fan'')]\<rparr>)"
proof -
  have look: "parseProfileInclude sample_env ''B'' (PDict []) [''profiles''] False st0
     = Inr (profile_B, st0\<lparr>profile_cache := [(''B.json'', profile_B)], opened := [''B.json'']\<rparr>)"
    by code_simp
  have t: "py_truthy profile_B" by (simp add: profile_B_def)
  have r: "py_get profile_B ''Resources'' PNone
     = Inr (PDict [(''Chassis'', PDict [(''ReadRequirement'', PStr ''Recommended'')])])"
    by (simp add: profile_B_def)
  have k: "''Fan'' \<notin> set (map fst [(''Chassis'', PDict [(''ReadRequirement'', PStr ''Recommended'')])])"
    by simp
  from scoped_import_missing_key [OF look t r k] look show ?thesis
    by (simp add: st0_def)
qed

text \<open>
  C5. When the profile's name is already in the chain it is given, \<^verbatim>\<open>getProfiles\<close>
  returns two empty lists at once: the profile, the chain and the cache are as before,
  one error is logged, and one allowed call is enough, so there is no recursive call.
\<close>

theorem cyclical_import_returns_empty:
  assumes "py_get profile0 ''ProfileName'' PNone = Inr profile_name"
    and "py_in_list profile_name ch"
  shows "getProfiles (Suc depth) e profile0 directories (Some ch) online st =
     Inr \<lparr>profile_includes = [], required_by_resource = [], profile = profile0, chain = ch,
          final = st\<lparr>logged := logged st @
            [(ERROR, ''RequiredProfiles Import Error: Suspected duplicate/cyclical import error: ''
                @ py_str e (PList ch) @ '' '' @ py_str e profile_name)]\<rparr>\<rparr>"
  using assms by (simp add: getProfiles_body_def log_record_def cyclical_import_message_def)

theorem cyclical_import_returns_empty_witness:
  "py_get profile_A ''ProfileName'' PNone = Inr (PStr ''A'') \<and> py_in_list (PStr ''A'') [PStr ''A'']
   \<and> getProfiles 1 sample_env profile_A [''profiles''] (Some [PStr ''A'']) True st0 =
     Inr \<lparr>profile_includes = [], required_by_resource = [], profile = profile_A,
          chain = [PStr ''A''],
          final = st0\<lparr>logged := 
            [(ERROR, ''RequiredProfiles Import Error: Suspected duplicate/cyclical import error: [...] A'')]\<rparr>\<rparr>"
proof -
  have h1: "py_get profile_A ''ProfileName'' PNone = Inr (PStr ''A'')" by (simp add: profile_A_def)
  have h2: "py_in_list (PStr ''A'') [PStr ''A'']" by (simp add: py_in_list_def)
  show ?thesis
    using h1 h2 cyclical_import_returns_empty [OF h1 h2, of 0 sample_env "[''profiles'']" True st0]
    by (simp add: sample_env_def st0_def)
qed

text \<open>A profile that requires its own name is resolved with one error logged.\<close>

theorem self_import_terminates:
  "map_sum id (\<lambda>r. (profile_includes r, required_by_resource r, logged (final r)))
     (getProfiles 2 sample_env profile_A [''profiles''] None False st0)
   = Inr ([profile_A], [],
       [(ERROR, ''RequiredProfiles Import Error: Suspected duplicate/cyclical import error: [...] A'')])"
  by code_simp

subsection \<open>Requests of an offline resolution\<close>

lemma scan_candidates_requests:
  "scan_candidates e fs mv d st = Inr (mv', d', st') \<Longrightarrow> requests st' = requests st"
  by (induction fs arbitrary: mv d st) (auto simp: bindE_def Let_def split: sum.splits)

lemma parseProfileInclude_offline_requests:
  "parseProfileInclude e t i ds False st = Inr (pd, st') \<Longrightarrow> requests st' = requests st"
  unfolding parseProfileInclude_def Let_def
  by (auto simp: bindE_def log_record_def dest!: scan_candidates_requests
      split: sum.splits option.splits prod.splits if_splits)

lemma import_resource_requests:
  "import_resource e ds False rn t i inner reqs st = Inr (inner', reqs', st')
   \<Longrightarrow> requests st' = requests st"
  unfolding import_resource_def
  by (auto simp: bindE_def log_record_def dest!: parseProfileInclude_offline_requests
      split: sum.splits prod.splits if_splits)

lemma import_loop_requests:
  "\<not> online \<Longrightarrow> import_loop e ds online rn i n inner reqs st = Inr r
   \<Longrightarrow> requests (snd (snd r)) = requests st"
proof (induction e ds online rn i n inner reqs st arbitrary: r rule: import_loop.induct)
  case (1 e ds online rn i n inner reqs st)
  from "1.prems"(2) obtain kvs where
    kvs: "bindE (py_get inner ''RequiredResourceProfile'' (PDict [])) py_items = Inr kvs"
    by (subst (asm) import_loop.simps) (auto split: sum.splits)
  show ?case
  proof (cases "n \<le> i")
    case True
    with "1.prems" kvs show ?thesis
      by (subst (asm) import_loop.simps) (auto split: if_splits)
  next
    case False
    from "1.prems"(2) kvs False have len: "length kvs = n"
      by (subst (asm) import_loop.simps) (auto split: if_splits)
    from "1.prems"(2) kvs False len obtain r1 where
      r1: "import_resource e ds online rn (fst (kvs ! i)) (snd (kvs ! i)) inner reqs st = Inr r1"
      and rest: "import_loop e ds online rn (Suc i) n (fst r1) (fst (snd r1)) (snd (snd r1)) = Inr r"
      by (subst (asm) import_loop.simps) (auto split: sum.splits)
    have "requests (snd (snd r)) = requests (snd (snd r1))"
      using "1.IH" [OF kvs _ _ r1 "1.prems"(1) rest] len False by simp
    moreover have "requests (snd (snd r1)) = requests st"
      using r1 "1.prems"(1) import_resource_requests [of e ds rn _ _ inner reqs st "fst r1" "fst (snd r1)" "snd (snd r1)"]
      by simp
    ultimately show ?thesis by simp
  qed
qed

lemma objects_loop_requests:
  "objects_loop e ds False rn objs reqs st = Inr r \<Longrightarrow> requests (snd (snd r)) = requests st"
proof (induction objs arbitrary: reqs st r)
  case Nil
  then show ?case by auto
next
  case (Cons a objs)
  then show ?case
    by (auto simp: bindE_def split: sum.splits dest!: import_loop_requests [rotated])
qed

lemma process_resource_requests:
  "process_resource e ds False rn res reqs st = Inr r \<Longrightarrow> requests (snd (snd r)) = requests st"
  unfolding process_resource_def
  by (auto simp: bindE_def simp del: objects_loop.simps
      split: sum.splits prod.splits if_splits dest!: objects_loop_requests)

lemma resources_loop_requests:
  "resources_loop e ds False items reqs st = Inr r \<Longrightarrow> requests (snd (snd r)) = requests st"
proof (induction items arbitrary: reqs st r)
  case Nil
  then show ?case by auto
next
  case (Cons a items)
  then show ?case
    by (cases a) (auto split: sum.splits dest!: process_resource_requests)
qed

lemma include_required_requests:
  assumes rec: "\<forall>pd ch s r. recurse pd ch s = Inr r \<longrightarrow> requests (final r) = requests s"
    and look: "parseProfileInclude e t i ds online (final acc) = Inr (pd, st1)"
    and step: "include_required e recurse ds online t i acc = Inr acc'"
  shows "requests (final acc') = requests st1"
  using step look rec unfolding include_required_def
  by (auto simp: bindE_def split: sum.splits prod.splits if_splits)

lemma required_loop_requests:
  assumes rec: "\<forall>pd ch s r. recurse pd ch s = Inr r \<longrightarrow> requests (final r) = requests s"
  shows "required_loop e recurse ds False items acc = Inr acc'
     \<Longrightarrow> requests (final acc') = requests (final acc)"
proof (induction items arbitrary: acc)
  case Nil
  then show ?case by simp
next
  case (Cons a items)
  obtain t i where a: "a = (t, i)" by (cases a)
  from Cons.prems a obtain acc1 where
    s1: "include_required e recurse ds False t i acc = Inr acc1"
    and s2: "required_loop e recurse ds False items acc1 = Inr acc'"
    by (auto split: sum.splits)
  from s1 obtain pd st1 where
    look: "parseProfileInclude e t i ds False (final acc) = Inr (pd, st1)"
    unfolding include_required_def by (auto simp: bindE_def split: sum.splits)
  have "requests (final acc1) = requests st1"
    by (rule include_required_requests [OF rec look s1])
  moreover have "requests st1 = requests (final acc)"
    by (rule parseProfileInclude_offline_requests [OF look])
  ultimately show ?case using Cons.IH [OF s2] by simp
qed

lemma getProfiles_body_requests:
  assumes rec: "\<forall>pd ch s r. recurse pd ch s = Inr r \<longrightarrow> requests (final r) = requests s"
    and body: "getProfiles_body e recurse p ds ch False st = Inr r"
  shows "requests (final r) = requests st"
proof (cases "\<exists>acc. required_loop e recurse ds False
          (case bindE (py_get p ''RequiredProfiles'' (PDict [])) py_items of Inr x \<Rightarrow> x | Inl _ \<Rightarrow> [])
          \<lparr>profile_includes = [], required_by_resource = [], profile = p,
           chain = (case ch of None \<Rightarrow> [] | Some c \<Rightarrow> c)
                   @ [case py_get p ''ProfileName'' PNone of Inr x \<Rightarrow> x | Inl _ \<Rightarrow> PNone],
           final = st\<rparr> = Inr acc")
  case True
  then obtain acc where acc: "required_loop e recurse ds False
          (case bindE (py_get p ''RequiredProfiles'' (PDict [])) py_items of Inr x \<Rightarrow> x | Inl _ \<Rightarrow> [])
          \<lparr>profile_includes = [], required_by_resource = [], profile = p,
           chain = (case ch of None \<Rightarrow> [] | Some c \<Rightarrow> c)
                   @ [case py_get p ''ProfileName'' PNone of Inr x \<Rightarrow> x | Inl _ \<Rightarrow> PNone],
           final = st\<rparr> = Inr acc" by blast
  have q: "requests (final acc) = requests st"
    using required_loop_requests [OF rec acc] by simp
  from body acc q show ?thesis
    unfolding getProfiles_body_def Let_def
    by (auto simp: bindE_def log_record_def split: sum.splits prod.splits if_splits
        dest!: resources_loop_requests)
next
  case False
  with body show ?thesis
    unfolding getProfiles_body_def Let_def
    by (auto simp: bindE_def log_record_def split: sum.splits prod.splits if_splits)
qed

lemma getProfiles_offline_requests:
  "\<forall>p ch st r. getProfiles depth e p ds ch False st = Inr r \<longrightarrow> requests (final r) = requests st"
proof (induction depth)
  case 0
  then show ?case by simp
next
  case (Suc depth)
  have rec: "\<forall>pd c s r. (\<lambda>pd c s. getProfiles depth e pd ds (Some c) False s) pd c s = Inr r
       \<longrightarrow> requests (final r) = requests s"
    using Suc.IH by simp
  show ?case
    using getProfiles_body_requests [OF rec] by simp
qed

text \<open>A resolution with \<^verbatim>\<open>online\<close> false opens no URL, however deep it goes.\<close>

theorem offline_resolution_opens_no_url:
  "getProfiles depth e profile0 directories chain_arg False st = Inr r
   \<Longrightarrow> requests (final r) = requests st"
  using getProfiles_offline_requests by blast

theorem offline_resolution_opens_no_url_witness:
  "getProfiles 2 sample_env profile_B [''profiles''] None False st0
     = Inr \<lparr>profile_includes = [], required_by_resource = [], profile = profile_B,
            chain = [PStr ''B''],
            final = st0\<lparr>profile_cache := [(''R.json'', PNone)],
              logged := [(ERROR, ''RequiredProfile Import Error: Could not acquire this profile from local source or online R None'')]\<rparr>\<rparr>
   \<and> requests (st0\<lparr>profile_cache := [(''R.json'', PNone)],
              logged := [(ERROR, ''RequiredProfile Import Error: Could not acquire this profile from local source or online R None'')]\<rparr>)
     = requests st0"
proof -
  have run: "getProfiles 2 sample_env profile_B [''profiles''] None False st0
     = Inr \<lparr>profile_includes = [], required_by_resource = [], profile = profile_B,
            chain = [PStr ''B''],
            final = st0\<lparr>profile_cache := [(''R.json'', PNone)],
              logged := [(ERROR, ''RequiredProfile Import Error: Could not acquire this profile from local source or online R None'')]\<rparr>\<rparr>"
    by code_simp
  from offline_resolution_opens_no_url [OF run] run show ?thesis by simp
qed



end
